theory Spec2Isabelle
  imports Complex_Main "HOL-Library.AList"
begin

section \<open>Investment plans: the controller of \<^verbatim>\<open>plansController.js\<close>\<close>

text \<open>
  The controller's handlers are embedded as functions from the database contents (a
  \<open>store\<close>) and the request to a reply or an error, paired with the database contents
  after the handler has run.

  Conventions of the embedding:
  \<^item> JavaScript numbers that hold money and rates are exact rationals (\<open>rat\<close>); rounding
    of IEEE doubles is not modelled. A request value whose \<^verbatim>\<open>Number(...)\<close> is \<^verbatim>\<open>NaN\<close> is
    \<open>None\<close>.
  \<^item> Dates are milliseconds since the epoch (\<open>int\<close>). One handler reads the clock once:
    every \<^verbatim>\<open>new Date()\<close> and \<^verbatim>\<open>Date.now()\<close> of one request is the parameter \<open>now\<close>.
  \<^item> A MongoDB collection is an association list from \<^verbatim>\<open>_id\<close> to document; \<^verbatim>\<open>findById\<close>
    is \<open>map_of\<close>, \<^verbatim>\<open>save\<close> and \<^verbatim>\<open>create\<close> are \<open>AList.update\<close>, \<^verbatim>\<open>deleteOne\<close> is
    \<open>AList.delete\<close>. A reference field (\<^verbatim>\<open>invitedBy\<close>, \<^verbatim>\<open>activePlanInstance\<close>) is an
    \<open>objectId option\<close>, \<open>None\<close> being \<^verbatim>\<open>null\<close>; \<^verbatim>\<open>populate\<close> is a lookup that gives
    \<^verbatim>\<open>null\<close> for a reference whose document is gone.
  \<^item> Every \<^verbatim>\<open>return res.status(4xx/500)\<close> is an \<open>error\<close> value; reading a property of
    \<^verbatim>\<open>null\<close> throws, which \<^verbatim>\<open>asyncHandler\<close> turns into a failed request: \<open>TypeError\<close>.
  \<^item> The two listing handlers, \<^verbatim>\<open>getAllAvailablePlans\<close> and \<^verbatim>\<open>getAllPlansForAdmin\<close>, only
    read the database and are not embedded.
\<close>

subsection \<open>Documents\<close>

type_synonym objectId = nat

record User =
  userId :: string
  walletBalance :: rat
  bonusBalance :: rat
  invitedBy :: "objectId option"
  activePlanInstance :: "objectId option"

record Plan =
  name :: string
  minAmount :: rat
  maxAmount :: rat
  dailyYieldType :: string
  dailyYieldValue :: rat
  durationDays :: int
  hashRate :: "string option"
  imageUrl :: string

datatype instanceStatus = Active | Expired

record PlanInstance =
  user :: objectId
  plan :: objectId
  investedAmount :: rat
  dailyProfit :: rat
  startDate :: int
  endDate :: int
  lastCollectedDate :: "int option"
  totalCollected :: rat
  status :: instanceStatus

datatype transactionType = Investment | Commission | Collection

text \<open>
  The description of a transaction is a template filled with names; the constructors
  are the six templates of the controller, in the order of the source (investment in a
  plan, commission for the activation by a user, upgrade from a plan to a plan, daily
  collection, daily commission from a user, renewal of a plan).
\<close>

datatype description =
    InvestmentInPlan string
  | ActivationCommissionOf string
  | UpgradeOfPlan string string
  | DailyCollection
  | DailyCommissionOf string
  | RenewalOfPlan string

record Transaction =
  tx_user :: objectId
  tx_type :: transactionType
  tx_amount :: rat
  tx_description :: description

record Settings =
  referralCommissionRate :: rat
  dailyCommissionRate :: rat

text \<open>
  The database: the four collections and the settings document with
  \<^verbatim>\<open>configKey: "main_settings"\<close>, if there is one.
\<close>

record store =
  users :: "(objectId \<times> User) list"
  plans :: "(objectId \<times> Plan) list"
  instances :: "(objectId \<times> PlanInstance) list"
  transactions :: "Transaction list"
  settings :: "Settings option"

subsection \<open>Replies and errors\<close>

datatype precondition =
    AlreadyHasActivePlan  \<comment> \<open>400, lines 44 and 265\<close>
  | NoActivePlan          \<comment> \<open>400, lines 134 and 201\<close>
  | NotHigherTier         \<comment> \<open>400, line 146\<close>
  | NotExpired            \<comment> \<open>400, line 261\<close>

datatype error =
    ConfigurationMissing  \<comment> \<open>500, lines 40 and 197\<close>
  | NotFound              \<comment> \<open>404, lines 49, 139, 257, 327, 336\<close>
  | PreconditionFailed precondition
  | InvalidAmount         \<comment> \<open>400, line 54\<close>
  | InsufficientFunds     \<comment> \<open>400, lines 71, 151, 272\<close>
  | PlanExpired           \<comment> \<open>400, line 211\<close>
  | CollectionTooSoon rat \<comment> \<open>400, line 219, with the remaining hours before \<^verbatim>\<open>toFixed(1)\<close>\<close>
  | MissingFields         \<comment> \<open>400, line 319\<close>
  | PlanInUse nat         \<comment> \<open>400, line 338, with the number of active instances\<close>
  | TypeError             \<comment> \<open>a property of \<^verbatim>\<open>null\<close> was read; the handler threw\<close>

datatype reply =
    PlanActivated objectId PlanInstance  \<comment> \<open>201, line 118\<close>
  | PlanUpgraded                         \<comment> \<open>200, line 184\<close>
  | ProfitCollected rat                  \<comment> \<open>200, line 243\<close>
  | PlanRenewed                          \<comment> \<open>200, line 303\<close>
  | PlanCreated objectId Plan            \<comment> \<open>201, line 322\<close>
  | PlanUpdated Plan                     \<comment> \<open>200, line 331\<close>
  | PlanDeleted                          \<comment> \<open>200, line 340\<close>

type_synonym outcome = "(error + reply) \<times> store"

subsection \<open>Collections\<close>

definition findById :: "(objectId \<times> 'a) list \<Rightarrow> objectId \<Rightarrow> 'a option" where
  "findById coll i = map_of coll i"

definition save :: "objectId \<Rightarrow> 'a \<Rightarrow> (objectId \<times> 'a) list \<Rightarrow> (objectId \<times> 'a) list" where
  "save i d coll = AList.update i d coll"

definition deleteOne :: "objectId \<Rightarrow> (objectId \<times> 'a) list \<Rightarrow> (objectId \<times> 'a) list" where
  "deleteOne i coll = AList.delete i coll"

fun refs :: "objectId option \<Rightarrow> objectId list" where
  "refs None = []"
| "refs (Some i) = [i]"

text \<open>
  A new \<^verbatim>\<open>_id\<close> differs from every identifier the database holds, as a key or as a
  reference: it is one more than the largest of them.
\<close>

definition usedIds :: "store \<Rightarrow> objectId list" where
  "usedIds s =
     map fst (users s) @ map fst (plans s) @ map fst (instances s)
     @ concat (map (\<lambda>(_, u). refs (invitedBy u) @ refs (activePlanInstance u)) (users s))
     @ concat (map (\<lambda>(_, i). [user i, plan i]) (instances s))
     @ map tx_user (transactions s)"

definition newObjectId :: "store \<Rightarrow> objectId" where
  "newObjectId s = Suc (foldr max (usedIds s) 0)"

text \<open>
  Modelled from the spec: the schema of \<^verbatim>\<open>PlanInstance\<close> in \<^verbatim>\<open>./models\<close>, which is not
  part of the sources. \<^verbatim>\<open>PlanInstance.create\<close> is given seven fields by the controller;
  the spec's data model fixes the two others of a new instance: \<open>totalCollected = 0\<close> and
  \<open>status = active\<close>.
\<close>

definition PlanInstance_create ::
  "objectId \<Rightarrow> objectId \<Rightarrow> rat \<Rightarrow> rat \<Rightarrow> int \<Rightarrow> int \<Rightarrow> int \<Rightarrow> PlanInstance" where
  "PlanInstance_create u p amount profit start end' lastCollected =
     \<lparr> user = u, plan = p, investedAmount = amount, dailyProfit = profit,
       startDate = start, endDate = end', lastCollectedDate = Some lastCollected,
       totalCollected = 0, status = Active \<rparr>"

definition Transaction_create :: "Transaction \<Rightarrow> store \<Rightarrow> store" where
  "Transaction_create t s = s\<lparr>transactions := transactions s @ [t]\<rparr>"

subsection \<open>Terms of a new instance\<close>

text \<open>
  Lines 77, 159 and 277--279: the daily profit is the plan's value for a plan whose
  type is the string \<^verbatim>\<open>'fixed'\<close>, and the percentage of the amount for any other type.
\<close>

definition dailyProfitFor :: "Plan \<Rightarrow> rat \<Rightarrow> rat" where
  "dailyProfitFor p amount =
     (if dailyYieldType p = ''fixed'' then dailyYieldValue p
      else (amount * dailyYieldValue p) / 100)"

text \<open>
  Lines 79--80, 161--162, 282--283: \<^verbatim>\<open>endDate.setDate(startDate.getDate() + durationDays)\<close>
  moves the date \<open>durationDays\<close> calendar days ahead, days of 24 hours.
\<close>

definition msPerDay :: int where
  "msPerDay = 24 * 60 * 60 * 1000"

definition endDateFor :: "int \<Rightarrow> Plan \<Rightarrow> int" where
  "endDateFor now p = now + durationDays p * msPerDay"

subsection \<open>activatePlan\<close>

text \<open>
  Lines 57--68: the part of the amount that the wallet pays and the part that the
  bonus balance pays, \<open>(realAmountToPay, bonusAmountUsed)\<close>.
\<close>

definition fundingSplit :: "User \<Rightarrow> rat \<Rightarrow> rat \<times> rat" where
  "fundingSplit u amount =
     (if bonusBalance u > 0 then
        (if bonusBalance u \<ge> amount then (0, amount)
         else (amount - bonusBalance u, bonusBalance u))
      else (amount, 0))"

text \<open>Lines 102--116: the commission of the referrer on an activation.\<close>

definition payActivationCommission :: "Settings \<Rightarrow> User \<Rightarrow> rat \<Rightarrow> store \<Rightarrow> store" where
  "payActivationCommission cfg u amount s =
     (case invitedBy u of
        None \<Rightarrow> s
      | Some rid \<Rightarrow>
          (case findById (users s) rid of
             None \<Rightarrow> s
           | Some referrer \<Rightarrow>
               let commissionAmount = amount * (referralCommissionRate cfg / 100);
                   referrer' = referrer\<lparr>walletBalance := walletBalance referrer + commissionAmount\<rparr>;
                   s1 = s\<lparr>users := save rid referrer' (users s)\<rparr>
               in Transaction_create
                    \<lparr> tx_user = rid, tx_type = Commission, tx_amount = commissionAmount,
                      tx_description = ActivationCommissionOf (userId u) \<rparr> s1))"

text \<open>Lines 74--100: the mutations of a successful activation, before the commission.\<close>

definition activateCommit :: "int \<Rightarrow> objectId \<Rightarrow> User \<Rightarrow> objectId \<Rightarrow> Plan \<Rightarrow> rat \<Rightarrow> store
    \<Rightarrow> (objectId \<times> PlanInstance \<times> User) \<times> store" where
  "activateCommit now uid u planId p amount s =
     (let (realAmountToPay, bonusAmountUsed) = fundingSplit u amount;
          u1 = u\<lparr>walletBalance := walletBalance u - realAmountToPay,
                 bonusBalance := bonusBalance u - bonusAmountUsed\<rparr>;
          iid = newObjectId s;
          newPlanInstance =
            PlanInstance_create uid planId amount (dailyProfitFor p amount)
              now (endDateFor now p) now;
          s1 = s\<lparr>instances := save iid newPlanInstance (instances s)\<rparr>;
          u2 = u1\<lparr>activePlanInstance := Some iid\<rparr>;
          s2 = s1\<lparr>users := save uid u2 (users s1)\<rparr>;
          s3 = Transaction_create
                 \<lparr> tx_user = uid, tx_type = Investment, tx_amount = - amount,
                   tx_description = InvestmentInPlan (name p) \<rparr> s2
      in ((iid, newPlanInstance, u2), s3))"

definition activatePlan :: "int \<Rightarrow> store \<Rightarrow> objectId \<Rightarrow> objectId \<Rightarrow> rat option \<Rightarrow> outcome" where
  "activatePlan now s uid planId investedAmount' =
     (case settings s of
        None \<Rightarrow> (Inl ConfigurationMissing, s)
      | Some cfg \<Rightarrow>
     (case findById (users s) uid of
        None \<Rightarrow> (Inl TypeError, s)
      | Some u \<Rightarrow>
     if activePlanInstance u \<noteq> None then (Inl (PreconditionFailed AlreadyHasActivePlan), s)
     else
     (case findById (plans s) planId of
        None \<Rightarrow> (Inl NotFound, s)
      | Some p \<Rightarrow>
     (case investedAmount' of
        None \<Rightarrow> (Inl InvalidAmount, s)
      | Some amount \<Rightarrow>
     if amount < minAmount p \<or> amount > maxAmount p then (Inl InvalidAmount, s)
     else if walletBalance u < fst (fundingSplit u amount) then (Inl InsufficientFunds, s)
     else
       (case activateCommit now uid u planId p amount s of
          ((iid, newPlanInstance, u2), s3) \<Rightarrow>
            (Inr (PlanActivated iid newPlanInstance),
             payActivationCommission cfg u2 amount s3))))))"

subsection \<open>upgradePlan\<close>

text \<open>
  \<^verbatim>\<open>populate\<close> of a reference: the document with its \<^verbatim>\<open>_id\<close>, or \<^verbatim>\<open>null\<close> when the
  reference is \<^verbatim>\<open>null\<close> or points to no document.
\<close>

definition populate :: "(objectId \<times> 'a) list \<Rightarrow> objectId option \<Rightarrow> (objectId \<times> 'a) option" where
  "populate coll r =
     (case r of
        None \<Rightarrow> None
      | Some i \<Rightarrow> (case findById coll i of None \<Rightarrow> None | Some d \<Rightarrow> Some (i, d)))"

text \<open>Lines 154--182: the mutations of a successful upgrade.\<close>

definition upgradeCommit ::
  "int \<Rightarrow> objectId \<Rightarrow> User \<Rightarrow> objectId \<Rightarrow> PlanInstance \<Rightarrow> Plan \<Rightarrow> objectId \<Rightarrow> Plan \<Rightarrow> store \<Rightarrow> store" where
  "upgradeCommit now uid u oldId oldPlanInstance oldPlan newPlanId newPlan s =
     (let priceDifference = minAmount newPlan - minAmount oldPlan;
          u1 = u\<lparr>walletBalance := walletBalance u - priceDifference\<rparr>;
          s1 = s\<lparr>instances := save oldId (oldPlanInstance\<lparr>status := Expired\<rparr>) (instances s)\<rparr>;
          iid = newObjectId s1;
          newPlanInstance =
            PlanInstance_create uid newPlanId (minAmount newPlan)
              (dailyProfitFor newPlan (minAmount newPlan)) now (endDateFor now newPlan) now;
          s2 = s1\<lparr>instances := save iid newPlanInstance (instances s1)\<rparr>;
          u2 = u1\<lparr>activePlanInstance := Some iid\<rparr>;
          s3 = s2\<lparr>users := save uid u2 (users s2)\<rparr>
      in Transaction_create
           \<lparr> tx_user = uid, tx_type = Investment, tx_amount = - priceDifference,
             tx_description = UpgradeOfPlan (name oldPlan) (name newPlan) \<rparr> s3)"

definition upgradePlan :: "int \<Rightarrow> store \<Rightarrow> objectId \<Rightarrow> objectId \<Rightarrow> outcome" where
  "upgradePlan now s uid newPlanId =
     (case findById (users s) uid of
        None \<Rightarrow> (Inl TypeError, s)
      | Some u \<Rightarrow>
     (case populate (instances s) (activePlanInstance u) of
        None \<Rightarrow> (Inl (PreconditionFailed NoActivePlan), s)
      | Some (oldId, oldPlanInstance) \<Rightarrow>
     (case findById (plans s) newPlanId of
        None \<Rightarrow> (Inl NotFound, s)
      | Some newPlan \<Rightarrow>
     (case findById (plans s) (plan oldPlanInstance) of
        None \<Rightarrow> (Inl TypeError, s)
      | Some oldPlan \<Rightarrow>
     if minAmount newPlan \<le> minAmount oldPlan then (Inl (PreconditionFailed NotHigherTier), s)
     else if walletBalance u < minAmount newPlan - minAmount oldPlan
       then (Inl InsufficientFunds, s)
     else
       (Inr PlanUpgraded,
        upgradeCommit now uid u oldId oldPlanInstance oldPlan newPlanId newPlan s)))))"

subsection \<open>collectDailyProfit\<close>

text \<open>Lines 233--241: the commission of the referrer on a daily collection.\<close>

definition payDailyCommission :: "Settings \<Rightarrow> User \<Rightarrow> rat \<Rightarrow> store \<Rightarrow> store" where
  "payDailyCommission cfg u profit s =
     (case invitedBy u of
        None \<Rightarrow> s
      | Some rid \<Rightarrow>
          (case findById (users s) rid of
             None \<Rightarrow> s
           | Some referrer \<Rightarrow>
               if activePlanInstance referrer = None then s
               else
                 let dailyCommission = profit * (dailyCommissionRate cfg / 100);
                     referrer' = referrer\<lparr>walletBalance := walletBalance referrer + dailyCommission\<rparr>;
                     s1 = s\<lparr>users := save rid referrer' (users s)\<rparr>
                 in Transaction_create
                      \<lparr> tx_user = rid, tx_type = Commission, tx_amount = dailyCommission,
                        tx_description = DailyCommissionOf (userId u) \<rparr> s1))"

text \<open>Lines 207--210: the plan is past its end date.\<close>

definition expireOnCollect :: "objectId \<Rightarrow> User \<Rightarrow> objectId \<Rightarrow> PlanInstance \<Rightarrow> store \<Rightarrow> store" where
  "expireOnCollect uid u iid planInstance s =
     (let s1 = s\<lparr>instances := save iid (planInstance\<lparr>status := Expired\<rparr>) (instances s)\<rparr>
      in s1\<lparr>users := save uid (u\<lparr>activePlanInstance := None\<rparr>) (users s1)\<rparr>)"

text \<open>Line 214: \<^verbatim>\<open>planInstance.lastCollectedDate || planInstance.startDate\<close>.\<close>

definition lastCollectionBase :: "PlanInstance \<Rightarrow> int" where
  "lastCollectionBase planInstance =
     (case lastCollectedDate planInstance of Some d \<Rightarrow> d | None \<Rightarrow> startDate planInstance)"

definition nextCollectionTime :: "PlanInstance \<Rightarrow> int" where
  "nextCollectionTime planInstance = lastCollectionBase planInstance + msPerDay"

text \<open>Line 218, without the rounding to one decimal of \<^verbatim>\<open>toFixed(1)\<close>.\<close>

definition remainingHours :: "int \<Rightarrow> PlanInstance \<Rightarrow> rat" where
  "remainingHours now planInstance =
     of_int (nextCollectionTime planInstance - now) / (1000 * 60 * 60)"

text \<open>Lines 222--231: the mutations of a successful collection, before the commission.\<close>

definition collectCommit :: "int \<Rightarrow> objectId \<Rightarrow> User \<Rightarrow> objectId \<Rightarrow> PlanInstance \<Rightarrow> store \<Rightarrow> store" where
  "collectCommit now uid u iid planInstance s =
     (let profit = dailyProfit planInstance;
          u1 = u\<lparr>walletBalance := walletBalance u + profit\<rparr>;
          planInstance' = planInstance\<lparr>lastCollectedDate := Some now,
                            totalCollected := totalCollected planInstance + profit\<rparr>;
          s1 = s\<lparr>instances := save iid planInstance' (instances s)\<rparr>;
          s2 = s1\<lparr>users := save uid u1 (users s1)\<rparr>
      in Transaction_create
           \<lparr> tx_user = uid, tx_type = Collection, tx_amount = profit,
             tx_description = DailyCollection \<rparr> s2)"

definition collectDailyProfit :: "int \<Rightarrow> store \<Rightarrow> objectId \<Rightarrow> outcome" where
  "collectDailyProfit now s uid =
     (case settings s of
        None \<Rightarrow> (Inl ConfigurationMissing, s)
      | Some cfg \<Rightarrow>
     (case findById (users s) uid of
        None \<Rightarrow> (Inl TypeError, s)
      | Some u \<Rightarrow>
     (case populate (instances s) (activePlanInstance u) of
        None \<Rightarrow> (Inl (PreconditionFailed NoActivePlan), s)
      | Some (iid, planInstance) \<Rightarrow>
     if now > endDate planInstance
       then (Inl PlanExpired, expireOnCollect uid u iid planInstance s)
     else if now < nextCollectionTime planInstance
       then (Inl (CollectionTooSoon (remainingHours now planInstance)), s)
     else
       (Inr (ProfitCollected (dailyProfit planInstance)),
        payDailyCommission cfg u (dailyProfit planInstance)
          (collectCommit now uid u iid planInstance s)))))"

subsection \<open>renewPlan\<close>

text \<open>Lines 275--301: the mutations of a successful renewal.\<close>

definition renewCommit :: "int \<Rightarrow> objectId \<Rightarrow> User \<Rightarrow> objectId \<Rightarrow> Plan \<Rightarrow> store \<Rightarrow> store" where
  "renewCommit now uid u planId planToRenew s =
     (let renewalCost = minAmount planToRenew;
          u1 = u\<lparr>walletBalance := walletBalance u - renewalCost\<rparr>;
          iid = newObjectId s;
          newInstance =
            PlanInstance_create uid planId renewalCost
              (dailyProfitFor planToRenew renewalCost) now (endDateFor now planToRenew) now;
          s1 = s\<lparr>instances := save iid newInstance (instances s)\<rparr>;
          u2 = u1\<lparr>activePlanInstance := Some iid\<rparr>;
          s2 = s1\<lparr>users := save uid u2 (users s1)\<rparr>
      in Transaction_create
           \<lparr> tx_user = uid, tx_type = Investment, tx_amount = - renewalCost,
             tx_description = RenewalOfPlan (name planToRenew) \<rparr> s2)"

definition renewPlan :: "int \<Rightarrow> store \<Rightarrow> objectId \<Rightarrow> objectId \<Rightarrow> outcome" where
  "renewPlan now s uid instanceId =
     (case findById (instances s) instanceId of
        None \<Rightarrow> (Inl NotFound, s)
      | Some oldInstance \<Rightarrow>
     (case findById (users s) uid of
        None \<Rightarrow> (Inl TypeError, s)
      | Some u \<Rightarrow>
     if user oldInstance \<noteq> uid then (Inl NotFound, s)
     else if status oldInstance \<noteq> Expired then (Inl (PreconditionFailed NotExpired), s)
     else if activePlanInstance u \<noteq> None then (Inl (PreconditionFailed AlreadyHasActivePlan), s)
     else
     (case findById (plans s) (plan oldInstance) of
        None \<Rightarrow> (Inl TypeError, s)
      | Some planToRenew \<Rightarrow>
     if walletBalance u < minAmount planToRenew then (Inl InsufficientFunds, s)
     else (Inr PlanRenewed, renewCommit now uid u (plan oldInstance) planToRenew s))))"

subsection \<open>The catalog: createPlan, updatePlan, deletePlan\<close>

text \<open>
  The body of an admin request: each field is present or not. \<open>file\<close> is the path of
  the uploaded image, \<^verbatim>\<open>req.file.path\<close>.
\<close>

record planBody =
  b_name :: "string option"
  b_minAmount :: "rat option"
  b_maxAmount :: "rat option"
  b_dailyYieldType :: "string option"
  b_dailyYieldValue :: "rat option"
  b_durationDays :: "int option"
  b_hashRate :: "string option"

text \<open>
  Line 318: \<^verbatim>\<open>!x\<close> holds of a missing field, of the empty string and of the number 0.
\<close>

definition createPlan :: "store \<Rightarrow> planBody \<Rightarrow> string option \<Rightarrow> outcome" where
  "createPlan s body file =
     (case (b_name body, b_minAmount body, b_maxAmount body,
            b_dailyYieldType body, b_dailyYieldValue body, b_durationDays body) of
        (Some n, Some mn, Some mx, Some ty, Some v, Some d) \<Rightarrow>
          if n = [] \<or> mn = 0 \<or> mx = 0 \<or> ty = [] \<or> v = 0 \<or> d = 0
          then (Inl MissingFields, s)
          else
            let p = \<lparr> name = n, minAmount = mn, maxAmount = mx, dailyYieldType = ty,
                      dailyYieldValue = v, durationDays = d, hashRate = b_hashRate body,
                      imageUrl = (case file of Some path \<Rightarrow> path | None \<Rightarrow> []) \<rparr>;
                pid = newObjectId s
            in (Inr (PlanCreated pid p), s\<lparr>plans := save pid p (plans s)\<rparr>)
      | _ \<Rightarrow> (Inl MissingFields, s))"

text \<open>Lines 328--329: \<^verbatim>\<open>Object.assign(plan, req.body)\<close>, then the image.\<close>

definition assignBody :: "Plan \<Rightarrow> planBody \<Rightarrow> string option \<Rightarrow> Plan" where
  "assignBody p body file =
     \<lparr> name = (case b_name body of Some n \<Rightarrow> n | None \<Rightarrow> name p),
       minAmount = (case b_minAmount body of Some x \<Rightarrow> x | None \<Rightarrow> minAmount p),
       maxAmount = (case b_maxAmount body of Some x \<Rightarrow> x | None \<Rightarrow> maxAmount p),
       dailyYieldType = (case b_dailyYieldType body of Some t \<Rightarrow> t | None \<Rightarrow> dailyYieldType p),
       dailyYieldValue = (case b_dailyYieldValue body of Some x \<Rightarrow> x | None \<Rightarrow> dailyYieldValue p),
       durationDays = (case b_durationDays body of Some d \<Rightarrow> d | None \<Rightarrow> durationDays p),
       hashRate = (case b_hashRate body of Some h \<Rightarrow> Some h | None \<Rightarrow> hashRate p),
       imageUrl = (case file of Some path \<Rightarrow> path | None \<Rightarrow> imageUrl p) \<rparr>"

definition updatePlan :: "store \<Rightarrow> objectId \<Rightarrow> planBody \<Rightarrow> string option \<Rightarrow> outcome" where
  "updatePlan s pid body file =
     (case findById (plans s) pid of
        None \<Rightarrow> (Inl NotFound, s)
      | Some p \<Rightarrow>
          let updatedPlan = assignBody p body file
          in (Inr (PlanUpdated updatedPlan), s\<lparr>plans := save pid updatedPlan (plans s)\<rparr>))"

text \<open>Line 337: \<^verbatim>\<open>countDocuments({ plan: plan._id, status: 'active' })\<close>.\<close>

definition countActive :: "(objectId \<times> PlanInstance) list \<Rightarrow> objectId \<Rightarrow> nat" where
  "countActive coll pid = length (filter (\<lambda>(_, i). plan i = pid \<and> status i = Active) coll)"

definition deletePlan :: "store \<Rightarrow> objectId \<Rightarrow> outcome" where
  "deletePlan s pid =
     (case findById (plans s) pid of
        None \<Rightarrow> (Inl NotFound, s)
      | Some p \<Rightarrow>
          let activeInstances = countActive (instances s) pid
          in if activeInstances > 0 then (Inl (PlanInUse activeInstances), s)
             else (Inr PlanDeleted, s\<lparr>plans := deleteOne pid (plans s)\<rparr>))"

subsection \<open>Sequences of requests\<close>

datatype request =
    Activate objectId objectId "rat option"
  | Upgrade objectId objectId
  | Collect objectId
  | Renew objectId objectId
  | CreatePlan planBody "string option"
  | UpdatePlan objectId planBody "string option"
  | DeletePlan objectId

fun handle :: "int \<Rightarrow> request \<Rightarrow> store \<Rightarrow> outcome" where
  "handle now (Activate uid planId amount) s = activatePlan now s uid planId amount"
| "handle now (Upgrade uid newPlanId) s = upgradePlan now s uid newPlanId"
| "handle now (Collect uid) s = collectDailyProfit now s uid"
| "handle now (Renew uid instanceId) s = renewPlan now s uid instanceId"
| "handle now (CreatePlan body file) s = createPlan s body file"
| "handle now (UpdatePlan pid body file) s = updatePlan s pid body file"
| "handle now (DeletePlan pid) s = deletePlan s pid"

text \<open>
  The requests of a list are served one after the other, each at its own time; the
  database after a request, failed or not, is the database of the next.
\<close>

fun serve :: "(int \<times> request) list \<Rightarrow> store \<Rightarrow> store" where
  "serve [] s = s"
| "serve ((now, r) # rs) s = serve rs (snd (handle now r s))"

subsection \<open>Ledger and balances of a user\<close>


definition walletOf :: "store \<Rightarrow> objectId \<Rightarrow> rat" where
  "walletOf s uid = (case findById (users s) uid of None \<Rightarrow> 0 | Some u \<Rightarrow> walletBalance u)"





subsection \<open>A small database\<close>

text \<open>
  Three users: user 1 was invited by user 2 and holds a bonus; user 3 was invited by
  user 1 and holds an active instance of the plan Silver. Three plans: Bronze pays 2
  percent a day, Silver and Gold pay a fixed amount.
\<close>

definition bronze :: Plan where
  "bronze = \<lparr> name = ''Bronze'', minAmount = 500, maxAmount = 5000,
              dailyYieldType = ''percentage'', dailyYieldValue = 2, durationDays = 30,
              hashRate = None, imageUrl = [] \<rparr>"

definition silver :: Plan where
  "silver = \<lparr> name = ''Silver'', minAmount = 1500, maxAmount = 10000,
              dailyYieldType = ''fixed'', dailyYieldValue = 50, durationDays = 60,
              hashRate = None, imageUrl = [] \<rparr>"

definition gold :: Plan where
  "gold = \<lparr> name = ''Gold'', minAmount = 5000, maxAmount = 50000,
            dailyYieldType = ''fixed'', dailyYieldValue = 200, durationDays = 90,
            hashRate = Some ''100 TH/s'', imageUrl = [] \<rparr>"

definition user1 :: User where
  "user1 = \<lparr> userId = ''U1'', walletBalance = 2500, bonusBalance = 100,
             invitedBy = Some 2, activePlanInstance = None \<rparr>"

definition user2 :: User where
  "user2 = \<lparr> userId = ''U2'', walletBalance = 50, bonusBalance = 0,
             invitedBy = None, activePlanInstance = None \<rparr>"

definition user3 :: User where
  "user3 = \<lparr> userId = ''U3'', walletBalance = 500, bonusBalance = 0,
             invitedBy = Some 1, activePlanInstance = Some 5 \<rparr>"

definition instance5 :: PlanInstance where
  "instance5 = \<lparr> user = 3, plan = 11, investedAmount = 1500, dailyProfit = 50,
                 startDate = 0, endDate = 5184000000, lastCollectedDate = Some 0,
                 totalCollected = 0, status = Active \<rparr>"

definition mainSettings :: Settings where
  "mainSettings = \<lparr> referralCommissionRate = 10, dailyCommissionRate = 5 \<rparr>"

definition demoStore :: store where
  "demoStore =
     \<lparr> users = [(1, user1), (2, user2), (3, user3)],
       plans = [(10, bronze), (11, silver), (12, gold)],
       instances = [(5, instance5)],
       transactions = [],
       settings = Some mainSettings \<rparr>"

text \<open>The instance that user 1 gets by investing 1000 in Bronze at time 0.\<close>

definition instance13 :: PlanInstance where
  "instance13 = \<lparr> user = 1, plan = 10, investedAmount = 1000, dailyProfit = 20,
                  startDate = 0, endDate = 2592000000, lastCollectedDate = Some 0,
                  totalCollected = 0, status = Active \<rparr>"

text \<open>The database after that activation: the bonus is spent, the wallet paid 900.\<close>

definition demoActive :: store where
  "demoActive =
     \<lparr> users = [(1, user1\<lparr>walletBalance := 1600, bonusBalance := 0,
                           activePlanInstance := Some 13\<rparr>),
                (2, user2\<lparr>walletBalance := 150\<rparr>), (3, user3)],
       plans = [(10, bronze), (11, silver), (12, gold)],
       instances = [(5, instance5), (13, instance13)],
       transactions =
         [\<lparr> tx_user = 1, tx_type = Investment, tx_amount = - 1000,
            tx_description = InvestmentInPlan ''Bronze'' \<rparr>,
          \<lparr> tx_user = 2, tx_type = Commission, tx_amount = 100,
            tx_description = ActivationCommissionOf ''U1'' \<rparr>],
       settings = Some mainSettings \<rparr>"

subsection \<open>Requests and later states of the small database\<close>

text \<open>Bodies of admin requests: no field, a plan whose bounds are inverted, a plan.\<close>

definition emptyBody :: planBody where
  "emptyBody = \<lparr> b_name = None, b_minAmount = None, b_maxAmount = None,
                 b_dailyYieldType = None, b_dailyYieldValue = None, b_durationDays = None,
                 b_hashRate = None \<rparr>"

definition invertedBody :: planBody where
  "invertedBody = \<lparr> b_name = Some ''Odd'', b_minAmount = Some 10, b_maxAmount = Some 5,
                 b_dailyYieldType = Some ''fixed'', b_dailyYieldValue = Some 1,
                 b_durationDays = Some 7, b_hashRate = None \<rparr>"

definition ironBody :: planBody where
  "ironBody = \<lparr> b_name = Some ''Iron'', b_minAmount = Some 100, b_maxAmount = Some 400,
                 b_dailyYieldType = Some ''fixed'', b_dailyYieldValue = Some 1,
                 b_durationDays = Some 7, b_hashRate = None \<rparr>"

text \<open>
  The database after user 1 tried to collect past the end date of instance 13, and
  after the admin then deleted Bronze, which no active instance uses any more.
\<close>

definition demoExpired :: store where
  "demoExpired =
     \<lparr> users = [(1, user1\<lparr>walletBalance := 1600, bonusBalance := 0\<rparr>),
                (2, user2\<lparr>walletBalance := 150\<rparr>), (3, user3)],
       plans = [(10, bronze), (11, silver), (12, gold)],
       instances = [(5, instance5), (13, instance13\<lparr>status := Expired\<rparr>)],
       transactions = transactions demoActive,
       settings = Some mainSettings \<rparr>"

definition demoDeleted :: store where
  "demoDeleted = demoExpired\<lparr>plans := [(11, silver), (12, gold)]\<rparr>"

text \<open>The data model's bound on bonus balances: none is negative.\<close>

definition bonusNonneg :: "store \<Rightarrow> bool" where
  "bonusNonneg s = list_all (\<lambda>(_, u). 0 \<le> bonusBalance u) (users s)"

section \<open>Properties\<close>

subsection \<open>Evaluation on the small database\<close>

lemmas demo_defs = demoStore_def demoActive_def demoExpired_def demoDeleted_def
  emptyBody_def invertedBody_def ironBody_def user1_def user2_def user3_def bronze_def
  silver_def gold_def instance5_def instance13_def mainSettings_def

lemmas handler_defs = activatePlan_def activateCommit_def payActivationCommission_def
  fundingSplit_def upgradePlan_def upgradeCommit_def populate_def collectDailyProfit_def
  collectCommit_def payDailyCommission_def expireOnCollect_def lastCollectionBase_def
  nextCollectionTime_def remainingHours_def renewPlan_def renewCommit_def createPlan_def
  updatePlan_def assignBody_def deletePlan_def countActive_def findById_def save_def
  deleteOne_def newObjectId_def usedIds_def PlanInstance_create_def Transaction_create_def
  dailyProfitFor_def endDateFor_def msPerDay_def Let_def

text \<open>The simplifier writes the identifier 1 as \<open>Suc 0\<close>.\<close>

lemma demo_activate:
  "activatePlan 0 demoStore (Suc 0) 10 (Some 1000)
     = (Inr (PlanActivated 13 instance13), demoActive)"
  by (simp add: handler_defs demo_defs)

subsection \<open>The ledger and the balances\<close>

lemma findById_save: "findById (save i d coll) j = (if j = i then Some d else findById coll j)"
  by (simp add: findById_def save_def update_conv')























subsection \<open>Activation\<close>

lemma payActivationCommission_instances:
  "instances (payActivationCommission cfg u a s) = instances s"
  by (simp add: payActivationCommission_def Transaction_create_def Let_def split: option.splits)

text \<open>
  C9. A successful activation replies with the created instance, which is stored under
  its new identifier; its daily profit is the plan's \<open>dailyYieldValue\<close> when the plan's
  \<open>dailyYieldType\<close> is \<open>fixed\<close>, and \<open>investedAmount * dailyYieldValue / 100\<close> when it is
  \<open>percentage\<close>.
\<close>

theorem activate_dailyProfit:
  assumes "fst (activatePlan now s uid planId amt) = Inr (PlanActivated iid inst)"
  shows "\<exists>p amount. findById (plans s) planId = Some p \<and> amt = Some amount
           \<and> investedAmount inst = amount
           \<and> (dailyYieldType p = ''fixed'' \<longrightarrow> dailyProfit inst = dailyYieldValue p)
           \<and> (dailyYieldType p = ''percentage'' \<longrightarrow>
                dailyProfit inst = amount * dailyYieldValue p / 100)
           \<and> findById (instances (snd (activatePlan now s uid planId amt))) iid = Some inst"
  using assms
  by (auto simp: activatePlan_def activateCommit_def Let_def dailyProfitFor_def
        PlanInstance_create_def payActivationCommission_instances Transaction_create_def
        findById_save
      split: option.splits if_splits prod.splits)

text \<open>
  The example of the spec: 1000 invested in a percentage plan of 2 percent (from 500 to
  5000, 30 days) gives a daily profit of 20.
\<close>

theorem activate_dailyProfit_witness:
  "fst (activatePlan 0 demoStore 1 10 (Some 1000)) = Inr (PlanActivated 13 instance13)
   \<and> findById (plans demoStore) 10 = Some bronze
   \<and> dailyYieldType bronze = ''percentage'' \<and> dailyYieldValue bronze = 2
   \<and> investedAmount instance13 = 1000
   \<and> dailyProfit instance13 = 20
   \<and> findById (instances (snd (activatePlan 0 demoStore 1 10 (Some 1000)))) 13
       = Some instance13"
  using activate_dailyProfit [of 0 demoStore 1 10 "Some 1000" 13 instance13]
  by (simp add: demo_activate) (simp add: demo_defs findById_def)

subsection \<open>Lookups after a save, and new identifiers\<close>

lemma findById_save_fun: "findById (save i d coll) = (findById coll)(i \<mapsto> d)"
  by (rule ext) (simp add: findById_save)

lemma foldr_max_ge: "i \<in> set xs \<Longrightarrow> i \<le> foldr max xs (0::nat)"
  by (induction xs) auto

lemma newObjectId_gt: "i \<in> set (usedIds s) \<Longrightarrow> i < newObjectId s"
  by (simp add: newObjectId_def foldr_max_ge less_Suc_eq_le)

lemma findById_key: "findById coll i = Some d \<Longrightarrow> i \<in> fst ` set coll"
  by (metis findById_def map_of_eq_None_iff option.distinct(1))

lemma newObjectId_instances: "findById (instances s) (newObjectId s) = None"
proof (cases "findById (instances s) (newObjectId s)")
  case None
  then show ?thesis .
next
  case (Some d)
  then have "newObjectId s \<in> set (usedIds s)"
    by (auto simp: usedIds_def dest: findById_key)
  then show ?thesis using newObjectId_gt by blast
qed

lemma list_all_update:
  "list_all P al \<Longrightarrow> list_all P (AList.update k v al) = P (k, v)"
  by (induction al) auto

subsection \<open>Bonus balances stay non-negative\<close>

text \<open>
  No request makes a bonus balance negative: only an activation changes one, and it
  takes at most what a positive balance holds.
\<close>

lemma bonusNonneg_lookup:
  "bonusNonneg s \<Longrightarrow> findById (users s) uid = Some u \<Longrightarrow> 0 \<le> bonusBalance u"
  by (auto simp: bonusNonneg_def findById_def list_all_iff dest: map_of_SomeD)

lemma list_all_lookup:
  "list_all (\<lambda>(_, u). 0 \<le> bonusBalance u) al \<Longrightarrow> findById al uid = Some u \<Longrightarrow> 0 \<le> bonusBalance u"
  by (auto simp: findById_def list_all_iff dest: map_of_SomeD)

lemma bonusNonneg_save:
  "bonusNonneg s \<Longrightarrow> 0 \<le> bonusBalance u \<Longrightarrow> bonusNonneg (s\<lparr>users := save uid u (users s)\<rparr>)"
  by (simp add: bonusNonneg_def save_def list_all_update)

lemma bonusNonneg_users: "users s' = users s \<Longrightarrow> bonusNonneg s' = bonusNonneg s"
  by (simp add: bonusNonneg_def)

lemma bonusNonneg_payActivationCommission:
  "bonusNonneg s \<Longrightarrow> bonusNonneg (payActivationCommission cfg u amount s)"
  by (auto simp: payActivationCommission_def Transaction_create_def Let_def bonusNonneg_def
        save_def list_all_update
      split: option.splits dest: list_all_lookup)

lemma bonusNonneg_payDailyCommission:
  "bonusNonneg s \<Longrightarrow> bonusNonneg (payDailyCommission cfg u profit s)"
  by (auto simp: payDailyCommission_def Transaction_create_def Let_def bonusNonneg_def
        save_def list_all_update
      split: option.splits dest: list_all_lookup)

lemma bonusNonneg_activateCommit:
  "bonusNonneg s \<Longrightarrow> findById (users s) uid = Some u
     \<Longrightarrow> bonusNonneg (snd (activateCommit now uid u planId p amount s))"
  by (auto simp: activateCommit_def Transaction_create_def Let_def bonusNonneg_def
        save_def list_all_update fundingSplit_def
      split: option.splits dest: list_all_lookup)

lemma bonusNonneg_activatePlan:
  assumes "bonusNonneg s"
  shows "bonusNonneg (snd (activatePlan now s uid planId amt))"
proof -
  have "bonusNonneg (payActivationCommission cfg u2 amount s3)"
    if "findById (users s) uid = Some u"
      and "activateCommit now uid u planId p amount s = ((iid, inst, u2), s3)"
    for cfg u p amount iid inst u2 s3
    using bonusNonneg_activateCommit[OF assms that(1), of now planId p amount] that(2)
    by (simp add: bonusNonneg_payActivationCommission)
  then show ?thesis
    using assms by (auto simp: activatePlan_def split: option.splits prod.splits)
qed

lemma bonusNonneg_upgradePlan:
  "bonusNonneg s \<Longrightarrow> bonusNonneg (snd (upgradePlan now s uid newPlanId))"
  by (auto simp: upgradePlan_def upgradeCommit_def Transaction_create_def Let_def
        bonusNonneg_def save_def list_all_update
      split: option.splits prod.splits dest: list_all_lookup)

lemma bonusNonneg_collectDailyProfit:
  "bonusNonneg s \<Longrightarrow> bonusNonneg (snd (collectDailyProfit now s uid))"
proof -
  assume b: "bonusNonneg s"
  have 1: "bonusNonneg (collectCommit now uid u iid inst s)"
    if "findById (users s) uid = Some u" for u iid inst
    using b that
    by (auto simp: collectCommit_def Transaction_create_def Let_def
        bonusNonneg_def save_def list_all_update
        dest: list_all_lookup)
  have 2: "bonusNonneg (expireOnCollect uid u iid inst s)"
    if "findById (users s) uid = Some u" for u iid inst
    using b that
    by (auto simp: expireOnCollect_def Let_def
        bonusNonneg_def save_def list_all_update
        dest: list_all_lookup)
  show ?thesis
    using b 1 2
    by (auto simp: collectDailyProfit_def split: option.splits prod.splits
        intro!: bonusNonneg_payDailyCommission)
qed

lemma bonusNonneg_renewPlan:
  "bonusNonneg s \<Longrightarrow> bonusNonneg (snd (renewPlan now s uid instanceId))"
  by (auto simp: renewPlan_def renewCommit_def Transaction_create_def Let_def
        bonusNonneg_def save_def list_all_update
      split: option.splits prod.splits dest: list_all_lookup)

lemma bonusNonneg_handle: "bonusNonneg s \<Longrightarrow> bonusNonneg (snd (handle now r s))"
proof (cases r)
  case (CreatePlan body img)
  assume "bonusNonneg s"
  then show ?thesis
    by (auto simp: CreatePlan createPlan_def Let_def bonusNonneg_def split: option.splits)
next
  case (UpdatePlan pid body img)
  assume "bonusNonneg s"
  then show ?thesis
    by (auto simp: UpdatePlan updatePlan_def Let_def bonusNonneg_def split: option.splits)
next
  case (DeletePlan pid)
  assume "bonusNonneg s"
  then show ?thesis
    by (auto simp: DeletePlan deletePlan_def Let_def bonusNonneg_def split: option.splits)
qed (simp_all add: bonusNonneg_activatePlan bonusNonneg_upgradePlan bonusNonneg_renewPlan
        bonusNonneg_collectDailyProfit)

lemma bonusNonneg_serve: "bonusNonneg s \<Longrightarrow> bonusNonneg (serve rs s)"
  by (induction rs arbitrary: s) (auto simp: bonusNonneg_handle)

subsection \<open>Funding of an activation\<close>



subsection \<open>Collection\<close>



text \<open>
  C4. A user whose active instance is past its end date collects: the request fails
  with PlanExpired; the instance is stored with status expired and otherwise as it
  was (so \<open>lastCollectedDate\<close> and \<open>totalCollected\<close> are unchanged), the user is stored
  without active instance and otherwise as it was (so the wallet is unchanged), no
  other user or instance changes and the ledger gets no transaction.
\<close>

theorem collect_expired:
  assumes "settings s = Some cfg" and "findById (users s) uid = Some u"
    and "activePlanInstance u = Some iid" and "findById (instances s) iid = Some inst"
    and "endDate inst < now"
  shows "fst (collectDailyProfit now s uid) = Inl PlanExpired
       \<and> findById (instances (snd (collectDailyProfit now s uid)))
           = (findById (instances s))(iid \<mapsto> inst\<lparr>status := Expired\<rparr>)
       \<and> findById (users (snd (collectDailyProfit now s uid)))
           = (findById (users s))(uid \<mapsto> u\<lparr>activePlanInstance := None\<rparr>)
       \<and> transactions (snd (collectDailyProfit now s uid)) = transactions s
       \<and> walletOf (snd (collectDailyProfit now s uid)) uid = walletBalance u"
  using assms
  by (simp add: collectDailyProfit_def expireOnCollect_def populate_def Let_def walletOf_def
        findById_save_fun)

theorem collect_expired_witness:
  "settings demoActive = Some mainSettings
   \<and> findById (users demoActive) 1
       = Some (user1\<lparr>walletBalance := 1600, bonusBalance := 0,
                     activePlanInstance := Some 13\<rparr>)
   \<and> findById (instances demoActive) 13 = Some instance13
   \<and> endDate instance13 < 2592000001
   \<and> collectDailyProfit 2592000001 demoActive 1 = (Inl PlanExpired, demoExpired)
   \<and> findById (instances demoExpired) 13 = Some (instance13\<lparr>status := Expired\<rparr>)
   \<and> findById (users demoExpired) 1
       = Some (user1\<lparr>walletBalance := 1600, bonusBalance := 0\<rparr>)
   \<and> transactions demoExpired = transactions demoActive
   \<and> walletOf demoExpired 1 = 1600"
  using collect_expired [of demoActive mainSettings 1
      "user1\<lparr>walletBalance := 1600, bonusBalance := 0, activePlanInstance := Some 13\<rparr>"
      13 instance13 2592000001]
  by (simp add: demo_defs handler_defs walletOf_def)

subsection \<open>Upgrade\<close>

text \<open>
  C5. A user with an active instance of a plan that is still in the catalog upgrades
  to a plan of the catalog: the request fails with PreconditionFailed unless the
  \<open>minAmount\<close> of the new plan is above that of the current plan, and with
  InsufficientFunds unless the wallet holds the difference of the two; otherwise it
  succeeds, the wallet is debited exactly the difference, the old instance is stored
  as expired, and a new instance is stored under a new identifier, active, owned by
  the user, of the new plan, with \<open>investedAmount\<close> the new plan's \<open>minAmount\<close>, and
  becomes the user's active instance.
\<close>

theorem upgrade_rules:
  assumes "findById (users s) uid = Some u" and "activePlanInstance u = Some iid"
    and "findById (instances s) iid = Some old"
    and "findById (plans s) (plan old) = Some oldPlan"
    and "findById (plans s) newPlanId = Some newPlan"
  shows "if minAmount newPlan \<le> minAmount oldPlan
         then upgradePlan now s uid newPlanId = (Inl (PreconditionFailed NotHigherTier), s)
         else if walletBalance u < minAmount newPlan - minAmount oldPlan
         then upgradePlan now s uid newPlanId = (Inl InsufficientFunds, s)
         else fst (upgradePlan now s uid newPlanId) = Inr PlanUpgraded
           \<and> walletOf (snd (upgradePlan now s uid newPlanId)) uid
               = walletBalance u - (minAmount newPlan - minAmount oldPlan)
           \<and> findById (instances (snd (upgradePlan now s uid newPlanId))) iid
               = Some (old\<lparr>status := Expired\<rparr>)
           \<and> (\<exists>nid newInst.
                 findById (instances s) nid = None
               \<and> findById (instances (snd (upgradePlan now s uid newPlanId))) nid = Some newInst
               \<and> findById (users (snd (upgradePlan now s uid newPlanId))) uid
                   = Some (u\<lparr>walletBalance :=
                                walletBalance u - (minAmount newPlan - minAmount oldPlan),
                              activePlanInstance := Some nid\<rparr>)
               \<and> status newInst = Active
               \<and> investedAmount newInst = minAmount newPlan
               \<and> user newInst = uid \<and> plan newInst = newPlanId)"
proof -
  let ?s1 = "s\<lparr>instances := save iid (old\<lparr>status := Expired\<rparr>) (instances s)\<rparr>"
  have k: "iid \<in> set (usedIds ?s1)"
    by (simp add: usedIds_def save_def dom_update)
  have fresh: "newObjectId ?s1 \<noteq> iid"
    using newObjectId_gt[OF k] by simp
  have "findById (instances ?s1) (newObjectId ?s1) = None"
    by (rule newObjectId_instances)
  then have fresh': "findById (instances s) (newObjectId ?s1) = None"
    using fresh by (simp add: findById_save)
  show ?thesis
    using assms fresh fresh'
    by (auto simp: upgradePlan_def upgradeCommit_def populate_def Transaction_create_def
          Let_def walletOf_def findById_save PlanInstance_create_def)
qed

theorem upgrade_rules_witness:
  "findById (users demoActive) 1
       = Some (user1\<lparr>walletBalance := 1600, bonusBalance := 0,
                     activePlanInstance := Some 13\<rparr>)
   \<and> findById (instances demoActive) 13 = Some instance13
   \<and> findById (plans demoActive) (plan instance13) = Some bronze
   \<and> findById (plans demoActive) 10 = Some bronze
   \<and> findById (plans demoActive) 11 = Some silver
   \<and> findById (plans demoActive) 12 = Some gold
   \<and> upgradePlan 5 demoActive 1 10 = (Inl (PreconditionFailed NotHigherTier), demoActive)
   \<and> upgradePlan 5 demoActive 1 12 = (Inl InsufficientFunds, demoActive)
   \<and> fst (upgradePlan 5 demoActive 1 11) = Inr PlanUpgraded
   \<and> walletOf (snd (upgradePlan 5 demoActive 1 11)) 1 = 600
   \<and> findById (instances (snd (upgradePlan 5 demoActive 1 11))) 13
       = Some (instance13\<lparr>status := Expired\<rparr>)
   \<and> findById (instances (snd (upgradePlan 5 demoActive 1 11))) 14
       = Some \<lparr> user = 1, plan = 11, investedAmount = 1500, dailyProfit = 50,
                startDate = 5, endDate = 5184000005, lastCollectedDate = Some 5,
                totalCollected = 0, status = Active \<rparr>"
  using upgrade_rules [of demoActive 1
      "user1\<lparr>walletBalance := 1600, bonusBalance := 0, activePlanInstance := Some 13\<rparr>"
      13 instance13 bronze 10 bronze 5]
    upgrade_rules [of demoActive 1
      "user1\<lparr>walletBalance := 1600, bonusBalance := 0, activePlanInstance := Some 13\<rparr>"
      13 instance13 bronze 12 gold 5]
    upgrade_rules [of demoActive 1
      "user1\<lparr>walletBalance := 1600, bonusBalance := 0, activePlanInstance := Some 13\<rparr>"
      13 instance13 bronze 11 silver 5]
  by (simp add: demo_defs handler_defs walletOf_def)

subsection \<open>Referral commissions\<close>

text \<open>
  C6. Let a user have an \<open>invitedBy\<close> reference to an existing referrer. A successful
  activation credits \<open>investedAmount * referralCommissionRate / 100\<close> to the wallet of
  the referrer, whether the referrer holds an active instance or not, and the ledger
  gets the investment transaction and then a commission transaction of that amount
  for the referrer. A successful collection credits \<open>dailyProfit * dailyCommissionRate
  / 100\<close> to the wallet of the referrer and records a commission transaction of that
  amount if the referrer holds an active instance; if not, the wallet of the referrer
  is unchanged and the ledger gets the collection transaction only. (For a user who is
  their own referrer the wallet also carries the user's own debit or profit.)
\<close>

theorem referral_commissions:
  assumes "settings s = Some cfg" and "findById (users s) uid = Some u"
    and "invitedBy u = Some rid" and "findById (users s) rid = Some r"
  shows "(fst (activatePlan now s uid planId (Some amount)) = Inr (PlanActivated iid inst) \<longrightarrow>
            walletOf (snd (activatePlan now s uid planId (Some amount))) rid
              = walletBalance r - (if rid = uid then fst (fundingSplit u amount) else 0)
                + amount * (referralCommissionRate cfg / 100)
          \<and> (\<exists>p. findById (plans s) planId = Some p
               \<and> transactions (snd (activatePlan now s uid planId (Some amount)))
                   = transactions s
                     @ [\<lparr> tx_user = uid, tx_type = Investment, tx_amount = - amount,
                          tx_description = InvestmentInPlan (name p) \<rparr>,
                        \<lparr> tx_user = rid, tx_type = Commission,
                          tx_amount = amount * (referralCommissionRate cfg / 100),
                          tx_description = ActivationCommissionOf (userId u) \<rparr>]))
       \<and> (fst (collectDailyProfit now s uid) = Inr (ProfitCollected profit) \<longrightarrow>
            (if activePlanInstance r \<noteq> None
             then walletOf (snd (collectDailyProfit now s uid)) rid
                    = walletBalance r + (if rid = uid then profit else 0)
                      + profit * (dailyCommissionRate cfg / 100)
                \<and> transactions (snd (collectDailyProfit now s uid))
                    = transactions s
                      @ [\<lparr> tx_user = uid, tx_type = Collection, tx_amount = profit,
                           tx_description = DailyCollection \<rparr>,
                         \<lparr> tx_user = rid, tx_type = Commission,
                           tx_amount = profit * (dailyCommissionRate cfg / 100),
                           tx_description = DailyCommissionOf (userId u) \<rparr>]
             else walletOf (snd (collectDailyProfit now s uid)) rid = walletBalance r
                \<and> transactions (snd (collectDailyProfit now s uid))
                    = transactions s
                      @ [\<lparr> tx_user = uid, tx_type = Collection, tx_amount = profit,
                           tx_description = DailyCollection \<rparr>]))"
proof -
  have act: "fst (activatePlan now s uid planId (Some amount)) = Inr (PlanActivated iid inst) \<longrightarrow>
            walletOf (snd (activatePlan now s uid planId (Some amount))) rid
              = walletBalance r - (if rid = uid then fst (fundingSplit u amount) else 0)
                + amount * (referralCommissionRate cfg / 100)
          \<and> (\<exists>p. findById (plans s) planId = Some p
               \<and> transactions (snd (activatePlan now s uid planId (Some amount)))
                   = transactions s
                     @ [\<lparr> tx_user = uid, tx_type = Investment, tx_amount = - amount,
                          tx_description = InvestmentInPlan (name p) \<rparr>,
                        \<lparr> tx_user = rid, tx_type = Commission,
                          tx_amount = amount * (referralCommissionRate cfg / 100),
                          tx_description = ActivationCommissionOf (userId u) \<rparr>])"
    using assms
    by (auto simp: activatePlan_def activateCommit_def payActivationCommission_def
          Transaction_create_def Let_def walletOf_def findById_save
        split: option.splits if_splits prod.splits)
  have col: "fst (collectDailyProfit now s uid) = Inr (ProfitCollected profit) \<longrightarrow>
            (if activePlanInstance r \<noteq> None
             then walletOf (snd (collectDailyProfit now s uid)) rid
                    = walletBalance r + (if rid = uid then profit else 0)
                      + profit * (dailyCommissionRate cfg / 100)
                \<and> transactions (snd (collectDailyProfit now s uid))
                    = transactions s
                      @ [\<lparr> tx_user = uid, tx_type = Collection, tx_amount = profit,
                           tx_description = DailyCollection \<rparr>,
                         \<lparr> tx_user = rid, tx_type = Commission,
                           tx_amount = profit * (dailyCommissionRate cfg / 100),
                           tx_description = DailyCommissionOf (userId u) \<rparr>]
             else walletOf (snd (collectDailyProfit now s uid)) rid = walletBalance r
                \<and> transactions (snd (collectDailyProfit now s uid))
                    = transactions s
                      @ [\<lparr> tx_user = uid, tx_type = Collection, tx_amount = profit,
                           tx_description = DailyCollection \<rparr>])"
    using assms
    by (auto simp: collectDailyProfit_def collectCommit_def payDailyCommission_def populate_def
          Transaction_create_def Let_def walletOf_def findById_save
        split: option.splits if_splits prod.splits)
  from act col show ?thesis by (rule conjI)
qed

theorem referral_commissions_witness:
  "settings demoStore = Some mainSettings \<and> settings demoActive = Some mainSettings
   \<and> findById (users demoStore) 1 = Some user1 \<and> invitedBy user1 = Some 2
   \<and> findById (users demoStore) 2 = Some user2 \<and> activePlanInstance user2 = None
   \<and> fst (activatePlan 0 demoStore 1 10 (Some 1000)) = Inr (PlanActivated 13 instance13)
   \<and> walletBalance user2 = 50
   \<and> walletOf (snd (activatePlan 0 demoStore 1 10 (Some 1000))) 2 = 150
   \<and> findById (users demoStore) 3 = Some user3 \<and> invitedBy user3 = Some 1
   \<and> activePlanInstance user1 = None
   \<and> fst (collectDailyProfit 86400000 demoStore 3) = Inr (ProfitCollected 50)
   \<and> walletOf (snd (collectDailyProfit 86400000 demoStore 3)) 1 = 2500
   \<and> findById (users demoActive) 3 = Some user3
   \<and> findById (users demoActive) 1
       = Some (user1\<lparr>walletBalance := 1600, bonusBalance := 0,
                     activePlanInstance := Some 13\<rparr>)
   \<and> fst (collectDailyProfit 86400000 demoActive 3) = Inr (ProfitCollected 50)
   \<and> walletOf (snd (collectDailyProfit 86400000 demoActive 3)) 1 = 1600 + 5 / 2
   \<and> transactions (snd (collectDailyProfit 86400000 demoActive 3))
       = transactions demoActive
         @ [\<lparr> tx_user = 3, tx_type = Collection, tx_amount = 50,
              tx_description = DailyCollection \<rparr>,
            \<lparr> tx_user = 1, tx_type = Commission, tx_amount = 5 / 2,
              tx_description = DailyCommissionOf ''U3'' \<rparr>]"
  using referral_commissions [of demoStore mainSettings 1 user1 2 user2 0 10 1000 13
      instance13 50]
    referral_commissions [of demoStore mainSettings 3 user3 1 user1 86400000 10 1000 13
      instance13 50]
    referral_commissions [of demoActive mainSettings 3 user3 1
      "user1\<lparr>walletBalance := 1600, bonusBalance := 0, activePlanInstance := Some 13\<rparr>"
      86400000 10 1000 13 instance13 50]
  by (simp add: demo_defs handler_defs walletOf_def)

subsection \<open>The settings record\<close>

lemma upgradePlan_settings:
  "upgradePlan now (s\<lparr>settings := x\<rparr>) uid newPlanId
     = (fst (upgradePlan now s uid newPlanId),
        (snd (upgradePlan now s uid newPlanId))\<lparr>settings := x\<rparr>)"
  by (simp add: upgradePlan_def upgradeCommit_def Transaction_create_def Let_def
        newObjectId_def usedIds_def split: option.splits prod.splits)

lemma renewPlan_settings:
  "renewPlan now (s\<lparr>settings := x\<rparr>) uid instanceId
     = (fst (renewPlan now s uid instanceId),
        (snd (renewPlan now s uid instanceId))\<lparr>settings := x\<rparr>)"
  by (simp add: renewPlan_def renewCommit_def Transaction_create_def Let_def
        newObjectId_def usedIds_def split: option.splits prod.splits)

text \<open>
  C7 (as amended). Without settings record, an activation and a collection fail with
  ConfigurationMissing and change nothing. An upgrade and a renewal do not read the
  settings record: they never fail with ConfigurationMissing, and without the record
  they reply and change the database as they do with one.
\<close>

theorem settings_missing:
  assumes "settings s = None"
  shows "activatePlan now s uid planId amt = (Inl ConfigurationMissing, s)
       \<and> collectDailyProfit now s uid = (Inl ConfigurationMissing, s)
       \<and> fst (upgradePlan now s uid newPlanId) \<noteq> Inl ConfigurationMissing
       \<and> fst (renewPlan now s uid instanceId) \<noteq> Inl ConfigurationMissing
       \<and> upgradePlan now s uid newPlanId
           = (fst (upgradePlan now (s\<lparr>settings := Some cfg\<rparr>) uid newPlanId),
              (snd (upgradePlan now (s\<lparr>settings := Some cfg\<rparr>) uid newPlanId))
                \<lparr>settings := None\<rparr>)
       \<and> renewPlan now s uid instanceId
           = (fst (renewPlan now (s\<lparr>settings := Some cfg\<rparr>) uid instanceId),
              (snd (renewPlan now (s\<lparr>settings := Some cfg\<rparr>) uid instanceId))
                \<lparr>settings := None\<rparr>)"
proof -
  have a: "activatePlan now s uid planId amt = (Inl ConfigurationMissing, s)"
    using assms by (simp add: activatePlan_def)
  have c: "collectDailyProfit now s uid = (Inl ConfigurationMissing, s)"
    using assms by (simp add: collectDailyProfit_def)
  have u: "fst (upgradePlan now s uid newPlanId) \<noteq> Inl ConfigurationMissing"
    by (simp add: upgradePlan_def split: option.splits prod.splits)
  have r: "fst (renewPlan now s uid instanceId) \<noteq> Inl ConfigurationMissing"
    by (simp add: renewPlan_def split: option.splits prod.splits)
  have s: "s = (s\<lparr>settings := Some cfg\<rparr>)\<lparr>settings := None\<rparr>"
    using assms by simp
  have u': "upgradePlan now s uid newPlanId
           = (fst (upgradePlan now (s\<lparr>settings := Some cfg\<rparr>) uid newPlanId),
              (snd (upgradePlan now (s\<lparr>settings := Some cfg\<rparr>) uid newPlanId))
                \<lparr>settings := None\<rparr>)"
    by (subst s) (rule upgradePlan_settings)
  have r': "renewPlan now s uid instanceId
           = (fst (renewPlan now (s\<lparr>settings := Some cfg\<rparr>) uid instanceId),
              (snd (renewPlan now (s\<lparr>settings := Some cfg\<rparr>) uid instanceId))
                \<lparr>settings := None\<rparr>)"
    by (subst s) (rule renewPlan_settings)
  from a c u r u' r' show ?thesis by blast
qed

theorem settings_missing_witness:
  "settings (demoStore\<lparr>settings := None\<rparr>) = None
   \<and> activatePlan 0 (demoStore\<lparr>settings := None\<rparr>) 1 10 (Some 1000)
       = (Inl ConfigurationMissing, demoStore\<lparr>settings := None\<rparr>)
   \<and> collectDailyProfit 86400000 (demoStore\<lparr>settings := None\<rparr>) 3
       = (Inl ConfigurationMissing, demoStore\<lparr>settings := None\<rparr>)"
  using settings_missing [where s = "demoStore\<lparr>settings := None\<rparr>" and now = 0
      and uid = 1 and planId = 10 and amt = "Some 1000" and newPlanId = 11
      and instanceId = 5 and cfg = mainSettings]
    settings_missing [where s = "demoStore\<lparr>settings := None\<rparr>" and now = 86400000
      and uid = 3 and planId = 10 and amt = "Some 1000" and newPlanId = 11
      and instanceId = 5 and cfg = mainSettings]
  by (simp add: demo_defs handler_defs)

text \<open>
  C7 as the claim states it fails: without settings record, user 1 upgrades from
  Bronze to Silver and pays 1000 for it, and renews the expired instance 13 and pays
  500 for it.
\<close>

theorem settings_missing_counterexample:
  "settings (demoActive\<lparr>settings := None\<rparr>) = None
   \<and> fst (upgradePlan 5 (demoActive\<lparr>settings := None\<rparr>) 1 11) = Inr PlanUpgraded
   \<and> walletOf (demoActive\<lparr>settings := None\<rparr>) 1 = 1600
   \<and> walletOf (snd (upgradePlan 5 (demoActive\<lparr>settings := None\<rparr>) 1 11)) 1 = 600
   \<and> settings (demoExpired\<lparr>settings := None\<rparr>) = None
   \<and> fst (renewPlan 2592000003 (demoExpired\<lparr>settings := None\<rparr>) 1 13) = Inr PlanRenewed
   \<and> walletOf (demoExpired\<lparr>settings := None\<rparr>) 1 = 1600
   \<and> walletOf (snd (renewPlan 2592000003 (demoExpired\<lparr>settings := None\<rparr>) 1 13)) 1 = 1100"
  by (simp add: demo_defs handler_defs walletOf_def)

subsection \<open>The catalog\<close>




subsection \<open>Renewal of an instance whose plan was deleted\<close>

text \<open>
  C10. User 1 invests in Bronze, and the instance, number 13, expires at the
  collection after its end date. No active instance uses Bronze then, so the admin
  deletes it. The renewal of instance 13 finds the instance, its owner and its status
  in order, and then reads \<open>minAmount\<close> of the plan that \<^verbatim>\<open>populate\<close> left \<^verbatim>\<open>null\<close>: the
  handler throws, nothing is changed, and the reply is not the 404 of a missing plan.
\<close>

theorem renew_deleted_plan:
  "serve [(0, Activate 1 10 (Some 1000)), (2592000001, Collect 1)] demoStore = demoExpired
   \<and> countActive (instances demoExpired) 10 = 0
   \<and> deletePlan demoExpired 10 = (Inr PlanDeleted, demoDeleted)
   \<and> findById (instances demoDeleted) 13 = Some (instance13\<lparr>status := Expired\<rparr>)
   \<and> findById (plans demoDeleted) (plan instance13) = None
   \<and> renewPlan 2592000003 demoDeleted 1 13 = (Inl TypeError, demoDeleted)
   \<and> fst (renewPlan 2592000003 demoDeleted 1 13) \<noteq> Inl NotFound"
  by (simp add: demo_defs handler_defs)

end
